theory Spec2Isabelle
  imports Main "HOL-Library.AList"
begin

section \<open>Python values shared by both modules\<close>

text \<open>
  Every \<^verbatim>\<open>raise\<close> of the two modules, and every implicit exception of a dictionary
  access that the modules rely on, is a constructor of \<open>error\<close>. \<open>class_of\<close> gives the
  Python exception class of each, since callers can only distinguish errors by class.
\<close>

datatype exc_class = ValueError | KeyError | AttributeError | TypeError | FileNotFoundError | OSError

datatype error =
    DcxItemNotMenu
    \<comment> \<open>ValueError: Found DCX item.msgbnd.dcx, but non-DCX menu.msgbnd\<close>
  | DcxMenuNotItem
    \<comment> \<open>ValueError: Found DCX menu.msgbnd.dcx, but non-DCX item.msgbnd\<close>
  | UnexpectedIndex string int
    \<comment> \<open>ValueError: BND entry (path) has unexpected index (id) in its msgbnd\<close>
  | NoItemToDelete string int
    \<comment> \<open>ValueError: There is no (item type) with index (index) to delete\<close>
  | AmbiguousEquipment
  | AmbiguousItem
  | UnrecognizedItemType string
  | NonExistentCategory string
    \<comment> \<open>AttributeError: Non-existent text category (FMG)\<close>
  | MissingKey string
    \<comment> \<open>KeyError of a dictionary keyed by names\<close>
  | MissingIndex int
    \<comment> \<open>KeyError of a dictionary keyed by integers\<close>
  | NoneHasNoAttribute
    \<comment> \<open>AttributeError: attribute access on \<^verbatim>\<open>None\<close>\<close>
  | NoneDirectory
    \<comment> \<open>TypeError: \<^verbatim>\<open>None / name\<close>\<close>
  | FileNotFound string
  | WriteFailed string
    \<comment> \<open>whatever \<^verbatim>\<open>BND.write\<close> raises\<close>
  | OnlySlots01
    \<comment> \<open>ValueError: Only slot 0 and slot 1 can exist in DrawParams\<close>
  | MalformedParamsName string
    \<comment> \<open>ValueError: Malformed params name\<close>
  | InvalidDrawParamBaseName string
    \<comment> \<open>KeyError: Invalid DrawParam base name\<close>

fun class_of :: "error \<Rightarrow> exc_class" where
  "class_of DcxItemNotMenu = ValueError"
| "class_of DcxMenuNotItem = ValueError"
| "class_of (UnexpectedIndex p i) = ValueError"
| "class_of (NoItemToDelete t i) = ValueError"
| "class_of AmbiguousEquipment = ValueError"
| "class_of AmbiguousItem = ValueError"
| "class_of (UnrecognizedItemType t) = ValueError"
| "class_of (NonExistentCategory c) = AttributeError"
| "class_of (MissingKey k) = KeyError"
| "class_of (MissingIndex i) = KeyError"
| "class_of NoneHasNoAttribute = AttributeError"
| "class_of NoneDirectory = TypeError"
| "class_of (FileNotFound p) = FileNotFoundError"
| "class_of (WriteFailed p) = OSError"
| "class_of OnlySlots01 = ValueError"
| "class_of (MalformedParamsName n) = ValueError"
| "class_of (InvalidDrawParamBaseName n) = KeyError"

subsection \<open>Strings\<close>

definition endswith :: "string \<Rightarrow> string \<Rightarrow> bool" where
  "endswith s suf \<longleftrightarrow> length suf \<le> length s \<and> drop (length s - length suf) s = suf"

definition startswith :: "string \<Rightarrow> string \<Rightarrow> bool" where
  "startswith s pre \<longleftrightarrow> take (length pre) s = pre"

text \<open>\<^verbatim>\<open>s[:-n]\<close> for a positive \<open>n\<close>: everything but the last \<open>n\<close> characters, empty when
  the string is shorter.\<close>

definition drop_last :: "nat \<Rightarrow> string \<Rightarrow> string" where
  "drop_last n s = take (length s - n) s"

text \<open>\<^verbatim>\<open>sub in s\<close>.\<close>

definition contains :: "string \<Rightarrow> string \<Rightarrow> bool" where
  "contains sub s \<longleftrightarrow> list_ex (\<lambda>i. take (length sub) (drop i s) = sub) [0 ..< Suc (length s)]"

text \<open>\<^verbatim>\<open>s.split(c)\<close> for a one-character separator: never empty, one more part than
  there are separators.\<close>

fun split_on :: "char \<Rightarrow> string \<Rightarrow> string list" where
  "split_on c [] = [[]]"
| "split_on c (x # xs) =
     (if x = c then [] # split_on c xs
      else (case split_on c xs of [] \<Rightarrow> [[x]] | p # ps \<Rightarrow> (x # p) # ps))"

text \<open>\<^verbatim>\<open>s.lower()\<close> on the ASCII letters, which is all the comparisons of
  \<^verbatim>\<open>resolve_item_type\<close> can see.\<close>

definition lower_char :: "char \<Rightarrow> char" where
  "lower_char c =
     (case map_of (zip ''ABCDEFGHIJKLMNOPQRSTUVWXYZ'' ''abcdefghijklmnopqrstuvwxyz'') c of
        None \<Rightarrow> c
      | Some l \<Rightarrow> l)"

definition lower :: "string \<Rightarrow> string" where
  "lower s = map lower_char s"

text \<open>\<^verbatim>\<open>s.replace(old, new)\<close>: every non-overlapping occurrence from the left; with an
  empty \<open>old\<close> Python puts \<open>new\<close> before every character and at the end.\<close>

function replace_str :: "string \<Rightarrow> string \<Rightarrow> string \<Rightarrow> string" where
  "replace_str old new s =
     (if old = [] then concat (map (\<lambda>c. new @ [c]) s) @ new
      else if s = [] then []
      else if take (length old) s = old then new @ replace_str old new (drop (length old) s)
      else hd s # replace_str old new (tl s))"
  by pat_completeness auto
termination
  by (relation "measure (\<lambda>(old, new, s). length s)") (auto simp: neq_Nil_conv)

declare replace_str.simps [simp del]

subsection \<open>Dictionaries\<close>

text \<open>
  A \<^verbatim>\<open>dict\<close> is an association list in insertion order: \<open>map_of\<close> reads it,
  \<open>AList.update\<close> is \<^verbatim>\<open>d[k] = v\<close> (in place for a present key, appended for a new one)
  and \<open>AList.delete\<close> removes a key.
\<close>

type_synonym ('k, 'v) dict = "('k \<times> 'v) list"

definition keys :: "('k, 'v) dict \<Rightarrow> 'k list" where
  "keys d = map fst d"

text \<open>\<^verbatim>\<open>d.update(other)\<close>: assigns the items of \<open>other\<close> in their order.\<close>

definition dict_update :: "('k, 'v) dict \<Rightarrow> ('k, 'v) dict \<Rightarrow> ('k, 'v) dict" where
  "dict_update d other = fold (\<lambda>(k, v). AList.update k v) other d"

text \<open>\<^verbatim>\<open>d.setdefault(k, {}).update(other)\<close> on a dictionary of dictionaries.\<close>

definition setdefault_update ::
  "('k, ('i, 'v) dict) dict \<Rightarrow> 'k \<Rightarrow> ('i, 'v) dict \<Rightarrow> ('k, ('i, 'v) dict) dict" where
  "setdefault_update d k other =
     (case map_of d k of
        None \<Rightarrow> AList.update k (dict_update [] other) d
      | Some inner \<Rightarrow> AList.update k (dict_update inner other) d)"

section \<open>The archive as \<^verbatim>\<open>msg_directory.py\<close> uses it\<close>

text \<open>
  The module reads of a BND its entries in order (each with \<^verbatim>\<open>id\<close>, \<^verbatim>\<open>path\<close>,
  \<^verbatim>\<open>name\<close> and \<^verbatim>\<open>data\<close>), the truth value of \<^verbatim>\<open>dcx_magic\<close> and the file name of
  its \<^verbatim>\<open>path\<close>; it changes entries through \<^verbatim>\<open>entries_by_id\<close> and removes them with
  \<^verbatim>\<open>remove_entry\<close>. The type \<open>'d\<close> is the packed payload of an entry.
\<close>

record 'd bnd_entry =
  entry_id :: int
  entry_path :: string
  entry_name :: string
  entry_data :: 'd

record 'd bnd =
  entries :: "'d bnd_entry list"
  dcx_magic :: bool
  path_name :: string

definition entry_ids :: "'d bnd \<Rightarrow> int list" where
  "entry_ids b = map entry_id (entries b)"

text \<open>\<^verbatim>\<open>msgbnd.remove_entry(i)\<close>.\<close>

definition remove_entry :: "'d bnd \<Rightarrow> int \<Rightarrow> 'd bnd" where
  "remove_entry b i = b\<lparr>entries := filter (\<lambda>e. entry_id e \<noteq> i) (entries b)\<rparr>"

text \<open>Assignments to the attributes of \<^verbatim>\<open>msgbnd.entries_by_id[i]\<close>.\<close>

definition modify_entry :: "'d bnd \<Rightarrow> int \<Rightarrow> ('d bnd_entry \<Rightarrow> 'd bnd_entry) \<Rightarrow> 'd bnd" where
  "modify_entry b i f = b\<lparr>entries := map (\<lambda>e. if entry_id e = i then f e else e) (entries b)\<rparr>"

definition entry_by_id :: "'d bnd \<Rightarrow> int \<Rightarrow> 'd bnd_entry option" where
  "entry_by_id b i = find (\<lambda>e. entry_id e = i) (entries b)"

text \<open>
  What a game-specific subclass of \<^verbatim>\<open>MSGDirectory\<close> supplies: the table
  \<^verbatim>\<open>_MSGBND_INDEX_NAMES\<close> (a two-way dictionary between entry IDs and category names) and
  \<^verbatim>\<open>FMG_CLASS\<close>, of which the module uses the decoded \<^verbatim>\<open>entries\<close> of a payload and
  \<^verbatim>\<open>pack(word_wrap_limit, pipe_to_newline)\<close> of a table built from entries.
\<close>

record 'd game =
  MSGBND_INDEX_NAMES :: "(int \<times> string) list"
  FMG_entries :: "'d \<Rightarrow> (int, string) dict"
  FMG_pack :: "(int, string) dict \<Rightarrow> int option \<Rightarrow> bool \<Rightarrow> 'd"

definition name_of_id :: "'d game \<Rightarrow> int \<Rightarrow> string option" where
  "name_of_id g i = map_of (MSGBND_INDEX_NAMES g) i"

definition id_of_name :: "'d game \<Rightarrow> string \<Rightarrow> int option" where
  "id_of_name g n = map_of (map (\<lambda>(i, n). (n, i)) (MSGBND_INDEX_NAMES g)) n"

section \<open>\<^verbatim>\<open>MSGDirectory\<close>\<close>

record 'd msg_directory =
  directory :: "string option"
  is_menu :: "(string, bool) dict"
  original_names :: "(string, string) dict"
  categories :: "(string, (int, string) dict) dict"
  is_patch :: "(string \<times> int) set"
  item_msgbnd :: "'d bnd option"
  menu_msgbnd :: "'d bnd option"

definition empty_directory :: "'d msg_directory" where
  "empty_directory =
     \<lparr>directory = None, is_menu = [], original_names = [], categories = [], is_patch = {},
      item_msgbnd = None, menu_msgbnd = None\<rparr>"

subsection \<open>\<^verbatim>\<open>load_fmg_entries_from_bnd\<close>\<close>

text \<open>The body of the loop, for one entry of the archive.\<close>

definition load_entry ::
  "'d game \<Rightarrow> bool \<Rightarrow> 'd msg_directory \<Rightarrow> 'd bnd_entry \<Rightarrow> error + 'd msg_directory" where
  "load_entry g menu md entry =
     (case name_of_id g (entry_id entry) of
        None \<Rightarrow> Inl (UnexpectedIndex (entry_path entry) (entry_id entry))
      | Some new_name \<Rightarrow>
          let md1 = md\<lparr>original_names := AList.update new_name (entry_name entry) (original_names md),
                       is_menu := AList.update new_name menu (is_menu md)\<rparr>;
              fmg = FMG_entries g (entry_data entry)
          in if endswith new_name ''Patch''
             then let base = drop_last 5 new_name
                  in Inr (md1\<lparr>is_patch := fold (\<lambda>index. insert (base, index)) (keys fmg) (is_patch md1),
                              categories := setdefault_update (categories md1) base fmg\<rparr>)
             else Inr (md1\<lparr>categories := setdefault_update (categories md1) new_name fmg\<rparr>))"

fun load_entries ::
  "'d game \<Rightarrow> bool \<Rightarrow> 'd msg_directory \<Rightarrow> 'd bnd_entry list \<Rightarrow> error + 'd msg_directory" where
  "load_entries g menu md [] = Inr md"
| "load_entries g menu md (entry # rest) =
     (case load_entry g menu md entry of
        Inl err \<Rightarrow> Inl err
      | Inr md' \<Rightarrow> load_entries g menu md' rest)"

definition load_fmg_entries_from_bnd ::
  "'d game \<Rightarrow> 'd msg_directory \<Rightarrow> 'd bnd \<Rightarrow> bool \<Rightarrow> error + 'd msg_directory" where
  "load_fmg_entries_from_bnd g md msgbnd menu = load_entries g menu md (entries msgbnd)"

subsection \<open>\<^verbatim>\<open>__init__\<close>\<close>

text \<open>
  The file system is a map from paths to the archives \<^verbatim>\<open>BND(path)\<close> would read.
  \<^verbatim>\<open>BND(directory / "item.msgbnd.dcx")\<close> is tried first, the name without
  \<^verbatim>\<open>.dcx\<close> after a \<^verbatim>\<open>FileNotFoundError\<close>.
\<close>

definition join_path :: "string \<Rightarrow> string \<Rightarrow> string" where
  "join_path dir name = dir @ ''/'' @ name"

definition open_msgbnd :: "(string \<Rightarrow> 'd bnd option) \<Rightarrow> string \<Rightarrow> string \<Rightarrow> error + 'd bnd" where
  "open_msgbnd fs dir name =
     (case fs (join_path dir (name @ ''.dcx'')) of
        Some b \<Rightarrow> Inr b
      | None \<Rightarrow>
          (case fs (join_path dir name) of
             Some b \<Rightarrow> Inr b
           | None \<Rightarrow> Inl (FileNotFound (join_path dir name))))"

definition init ::
  "'d game \<Rightarrow> (string \<Rightarrow> 'd bnd option) \<Rightarrow> string option \<Rightarrow> error + 'd msg_directory" where
  "init g fs msg_directory =
     (case msg_directory of
        None \<Rightarrow> Inr empty_directory
      | Some dir \<Rightarrow>
          (case open_msgbnd fs dir ''item.msgbnd'' of
             Inl err \<Rightarrow> Inl err
           | Inr item \<Rightarrow>
               (case open_msgbnd fs dir ''menu.msgbnd'' of
                  Inl err \<Rightarrow> Inl err
                | Inr menu \<Rightarrow>
                    if dcx_magic item \<and> \<not> dcx_magic menu then Inl DcxItemNotMenu
                    else if \<not> dcx_magic item \<and> dcx_magic menu then Inl DcxMenuNotItem
                    else
                      (let md = empty_directory\<lparr>directory := Some dir,
                                                item_msgbnd := Some item,
                                                menu_msgbnd := Some menu\<rparr>
                       in case load_fmg_entries_from_bnd g md item False of
                            Inl err \<Rightarrow> Inl err
                          | Inr md' \<Rightarrow> load_fmg_entries_from_bnd g md' menu True))))"

subsection \<open>Item text\<close>

definition resolve_item_type :: "string \<Rightarrow> error + string" where
  "resolve_item_type item_type =
     (let t = lower item_type
      in if t \<in> set [''good'', ''consumable''] then Inr ''Good''
         else if t \<in> set [''ring'', ''accessory''] then Inr ''Ring''
         else if t \<in> set [''weapon'', ''shield''] then Inr ''Weapon''
         else if t \<in> set [''armour'', ''armor'', ''protector''] then Inr ''Armor''
         else if t = ''equipment'' then Inl AmbiguousEquipment
         else if t = ''item'' then Inl AmbiguousItem
         else Inl (UnrecognizedItemType item_type))"

text \<open>\<^verbatim>\<open>self.categories[category][index]\<close>, read and assigned.\<close>

definition get_text :: "'d msg_directory \<Rightarrow> string \<Rightarrow> int \<Rightarrow> error + string" where
  "get_text md category index =
     (case map_of (categories md) category of
        None \<Rightarrow> Inl (MissingKey category)
      | Some d \<Rightarrow> (case map_of d index of None \<Rightarrow> Inl (MissingIndex index) | Some text \<Rightarrow> Inr text))"

definition set_text :: "'d msg_directory \<Rightarrow> string \<Rightarrow> int \<Rightarrow> string \<Rightarrow> error + 'd msg_directory" where
  "set_text md category index text =
     (case map_of (categories md) category of
        None \<Rightarrow> Inl (MissingKey category)
      | Some d \<Rightarrow>
          Inr (md\<lparr>categories := AList.update category (AList.update index text d) (categories md)\<rparr>))"

text \<open>\<^verbatim>\<open>get_all_item_text\<close> returns \<^verbatim>\<open>None\<close> for an index that has no name, and the
  name, summary and description otherwise.\<close>

definition get_all_item_text ::
  "'d msg_directory \<Rightarrow> int \<Rightarrow> string \<Rightarrow> error + (string \<times> string \<times> string) option" where
  "get_all_item_text md index item_type =
     (case resolve_item_type item_type of
        Inl err \<Rightarrow> Inl err
      | Inr item_fmg \<Rightarrow>
          (case map_of (categories md) (item_fmg @ ''Names'') of
             None \<Rightarrow> Inl (MissingKey (item_fmg @ ''Names''))
           | Some names \<Rightarrow>
               (case map_of names index of
                  None \<Rightarrow> Inr None
                | Some name \<Rightarrow>
                    (case get_text md (item_fmg @ ''Summaries'') index of
                       Inl err \<Rightarrow> Inl err
                     | Inr summary \<Rightarrow>
                         (case get_text md (item_fmg @ ''Descriptions'') index of
                            Inl err \<Rightarrow> Inl err
                          | Inr description \<Rightarrow> Inr (Some (name, summary, description)))))))"

text \<open>\<^verbatim>\<open>delete_item_text\<close> mutates the directory; the state it leaves is returned with
  the outcome, also when a later assignment raises.\<close>

definition delete_item_text ::
  "'d msg_directory \<Rightarrow> int \<Rightarrow> string \<Rightarrow> (error + unit) \<times> 'd msg_directory" where
  "delete_item_text md index item_fmg =
     (case resolve_item_type item_fmg of
        Inl err \<Rightarrow> (Inl err, md)
      | Inr item_fmg \<Rightarrow>
          (case map_of (categories md) (item_fmg @ ''Names'') of
             None \<Rightarrow> (Inl (MissingKey (item_fmg @ ''Names'')), md)
           | Some names \<Rightarrow>
               if map_of names index = None then (Inl (NoItemToDelete item_fmg index), md)
               else
                 (case set_text md (item_fmg @ ''Names'') index [] of
                    Inl err \<Rightarrow> (Inl err, md)
                  | Inr md1 \<Rightarrow>
                      (case set_text md1 (item_fmg @ ''Summaries'') index [] of
                         Inl err \<Rightarrow> (Inl err, md1)
                       | Inr md2 \<Rightarrow>
                           (case set_text md2 (item_fmg @ ''Descriptions'') index [] of
                              Inl err \<Rightarrow> (Inl err, md2)
                            | Inr md3 \<Rightarrow> (Inr (), md3))))))"

subsection \<open>\<^verbatim>\<open>__getitem__\<close>\<close>

definition getitem :: "'d msg_directory \<Rightarrow> string \<Rightarrow> error + (int, string) dict" where
  "getitem md text_category =
     (case map_of (categories md) text_category of
        Some d \<Rightarrow> Inr d
      | None \<Rightarrow> Inl (NonExistentCategory text_category))"

subsection \<open>\<^verbatim>\<open>update_msgbnd_entry\<close>\<close>

text \<open>
  The archive is one of the two copies \<^verbatim>\<open>save\<close> works on (\<^verbatim>\<open>None\<close> when the directory
  was built without files). A name missing from the table is a \<^verbatim>\<open>KeyError\<close>, which the
  \<^verbatim>\<open>except IndexError\<close> of the source does not catch.
\<close>

definition update_msgbnd_entry ::
  "'d game \<Rightarrow> 'd msg_directory \<Rightarrow> 'd bnd option \<Rightarrow> string \<Rightarrow> (int, string) dict \<Rightarrow>
   int option \<Rightarrow> bool \<Rightarrow> bool \<Rightarrow> error + 'd bnd" where
  "update_msgbnd_entry g md msgbnd fmg_name fmg_entries word_wrap_limit pipe_to_newline
     use_original_names =
     (let fmg_patch_data = FMG_pack g fmg_entries word_wrap_limit pipe_to_newline
      in case id_of_name g fmg_name of
           None \<Rightarrow> Inl (MissingKey fmg_name)
         | Some bnd_entry_id \<Rightarrow>
             (case msgbnd of
                None \<Rightarrow> Inl NoneHasNoAttribute
              | Some b \<Rightarrow>
                  if bnd_entry_id \<notin> set (entry_ids b) then Inl (MissingIndex bnd_entry_id)
                  else
                    (let b1 = modify_entry b bnd_entry_id (\<lambda>e. e\<lparr>entry_data := fmg_patch_data\<rparr>)
                     in if \<not> use_original_names
                        then (case map_of (original_names md) fmg_name of
                                None \<Rightarrow> Inl (MissingKey fmg_name)
                              | Some original \<Rightarrow>
                                  Inr (modify_entry b1 bnd_entry_id
                                        (\<lambda>e. e\<lparr>entry_path :=
                                           replace_str original (fmg_name @ ''.fmg'') (entry_path e)\<rparr>)))
                        else Inr b1)))"

subsection \<open>\<^verbatim>\<open>save\<close>\<close>

definition CAN_MERGE_PATCH :: "string list" where
  "CAN_MERGE_PATCH =
     [''WeaponNamesPatch'', ''WeaponSummariesPatch'', ''WeaponDescriptionsPatch'',
      ''ArmorNamesPatch'', ''ArmorSummariesPatch'', ''ArmorDescriptionsPatch'',
      ''RingNamesPatch'', ''RingSummariesPatch'', ''RingDescriptionsPatch'',
      ''GoodNamesPatch'', ''GoodSummariesPatch'', ''GoodDescriptionsPatch'',
      ''SpellNamesPatch'', ''SpellDescriptionsPatch'', ''NPCNamesPatch'', ''PlaceNamesPatch'']"

definition CANNOT_MERGE_PATCH :: "string list" where
  "CANNOT_MERGE_PATCH =
     [''EventText'', ''MenuDialogs'', ''SoapstoneMessages'', ''MenuHelpSnippets'', ''KeyGuide'',
      ''MenuText_Other'', ''MenuText_Common'']"

text \<open>A \<^verbatim>\<open>for\<close> loop whose body can raise: the first error ends it.\<close>

fun for_each :: "('a \<Rightarrow> 's \<Rightarrow> error + 's) \<Rightarrow> 'a list \<Rightarrow> 's \<Rightarrow> error + 's" where
  "for_each body [] s = Inr s"
| "for_each body (x # xs) s =
     (case body x s of Inl err \<Rightarrow> Inl err | Inr s' \<Rightarrow> for_each body xs s')"

text \<open>The two local copies \<^verbatim>\<open>new_item_msgbnd\<close> and \<^verbatim>\<open>new_menu_msgbnd\<close>.\<close>

type_synonym 'd new_msgbnds = "'d bnd option \<times> 'd bnd option"

definition select_msgbnd :: "bool \<Rightarrow> 'd new_msgbnds \<Rightarrow> 'd bnd option" where
  "select_msgbnd menu new = (if menu then snd new else fst new)"

definition store_msgbnd :: "bool \<Rightarrow> 'd bnd \<Rightarrow> 'd new_msgbnds \<Rightarrow> 'd new_msgbnds" where
  "store_msgbnd menu b new = (if menu then (fst new, Some b) else (Some b, snd new))"

text \<open>Body of the first loop, over \<^verbatim>\<open>_CAN_MERGE_PATCH\<close>, run when
  \<^verbatim>\<open>separate_patch\<close> is false.\<close>

definition remove_patch_entry ::
  "'d game \<Rightarrow> 'd msg_directory \<Rightarrow> string \<Rightarrow> 'd new_msgbnds \<Rightarrow> error + 'd new_msgbnds" where
  "remove_patch_entry g md patch_fmg_name new =
     (case map_of (is_menu md) patch_fmg_name of
        None \<Rightarrow> Inr new
      | Some menu \<Rightarrow>
          (case id_of_name g patch_fmg_name of
             None \<Rightarrow> Inl (MissingKey patch_fmg_name)
           | Some bnd_index \<Rightarrow>
               (case select_msgbnd menu new of
                  None \<Rightarrow> Inl NoneHasNoAttribute
                | Some msgbnd \<Rightarrow>
                    if bnd_index \<in> set (entry_ids msgbnd)
                    then Inr (store_msgbnd menu (remove_entry msgbnd bnd_index) new)
                    else Inr new)))"

text \<open>Body of the inner loop over \<^verbatim>\<open>fmg_entries.keys()\<close>; the state is
  \<^verbatim>\<open>(fmg_entries_main, fmg_entries_patch)\<close>.\<close>

definition separate_index ::
  "(string \<times> int) set \<Rightarrow> string \<Rightarrow> int \<Rightarrow>
   (int, string) dict \<times> (int, string) dict \<Rightarrow> error + (int, string) dict \<times> (int, string) dict" where
  "separate_index patch_set fmg_name index mp =
     (if (fmg_name, index) \<in> patch_set
      then (case map_of (fst mp) index of
              None \<Rightarrow> Inl (MissingIndex index)
            | Some patch_text \<Rightarrow>
                Inr (AList.delete index (fst mp),
                     if patch_text \<noteq> [] then AList.update index patch_text (snd mp) else snd mp))
      else Inr mp)"

text \<open>Body of the loop over \<^verbatim>\<open>self.categories.items()\<close>.\<close>

definition save_category ::
  "'d game \<Rightarrow> 'd msg_directory \<Rightarrow> int option \<Rightarrow> bool \<Rightarrow> bool \<Rightarrow> bool \<Rightarrow>
   string \<times> (int, string) dict \<Rightarrow> 'd new_msgbnds \<Rightarrow> error + 'd new_msgbnds" where
  "save_category g md description_word_wrap_limit separate_patch use_original_names
     pipe_to_newline item new =
     (let fmg_name = fst item; fmg_entries = snd item;
          word_wrap = (if contains ''Descriptions'' fmg_name then description_word_wrap_limit else None)
      in case (if separate_patch \<or> fmg_name \<in> set CANNOT_MERGE_PATCH
               then for_each (separate_index (is_patch md) fmg_name) (keys fmg_entries) (fmg_entries, [])
               else Inr (fmg_entries, [])) of
           Inl err \<Rightarrow> Inl err
         | Inr (fmg_entries_main, fmg_entries_patch) \<Rightarrow>
             (case (if fmg_entries_patch \<noteq> []
                    then (case map_of (is_menu md) (fmg_name @ ''Patch'') of
                            None \<Rightarrow> Inl (MissingKey (fmg_name @ ''Patch''))
                          | Some menu \<Rightarrow>
                              (case update_msgbnd_entry g md (select_msgbnd menu new)
                                      (fmg_name @ ''Patch'') fmg_entries_patch word_wrap
                                      pipe_to_newline use_original_names of
                                 Inl err \<Rightarrow> Inl err
                               | Inr b \<Rightarrow> Inr (store_msgbnd menu b new)))
                    else Inr new) of
                Inl err \<Rightarrow> Inl err
              | Inr new1 \<Rightarrow>
                  (case map_of (is_menu md) fmg_name of
                     None \<Rightarrow> Inl (MissingKey fmg_name)
                   | Some menu \<Rightarrow>
                       (case update_msgbnd_entry g md (select_msgbnd menu new1) fmg_name
                               fmg_entries word_wrap pipe_to_newline use_original_names of
                          Inl err \<Rightarrow> Inl err
                        | Inr b \<Rightarrow> Inr (store_msgbnd menu b new1)))))"

text \<open>Everything \<^verbatim>\<open>save\<close> does before it writes: the copies, the first loop and the
  loop over the categories.\<close>

definition pack_msgbnds ::
  "'d game \<Rightarrow> 'd msg_directory \<Rightarrow> int option \<Rightarrow> bool \<Rightarrow> bool \<Rightarrow> bool \<Rightarrow> error + 'd new_msgbnds" where
  "pack_msgbnds g md description_word_wrap_limit separate_patch use_original_names pipe_to_newline =
     (let new = (item_msgbnd md, menu_msgbnd md)
      in case (if \<not> separate_patch then for_each (remove_patch_entry g md) CAN_MERGE_PATCH new
               else Inr new) of
           Inl err \<Rightarrow> Inl err
         | Inr new1 \<Rightarrow>
             for_each (save_category g md description_word_wrap_limit separate_patch
                         use_original_names pipe_to_newline) (categories md) new1)"

text \<open>
  \<^verbatim>\<open>msgbnd.write(msg_directory / msgbnd.path.name)\<close>. What writing does to the files is
  a parameter: \<open>write fs path b\<close> gives the files after the attempt and the error it
  raised, if any.
\<close>

definition write_msgbnd ::
  "('fs \<Rightarrow> string \<Rightarrow> 'd bnd \<Rightarrow> error option \<times> 'fs) \<Rightarrow> string option \<Rightarrow> 'd bnd option \<Rightarrow> 'fs \<Rightarrow>
   error option \<times> 'fs" where
  "write_msgbnd write msg_directory msgbnd fs =
     (case msgbnd of
        None \<Rightarrow> (Some NoneHasNoAttribute, fs)
      | Some b \<Rightarrow>
          (case msg_directory of
             None \<Rightarrow> (Some NoneDirectory, fs)
           | Some dir \<Rightarrow> write fs (join_path dir (path_name b)) b))"

definition save ::
  "'d game \<Rightarrow> ('fs \<Rightarrow> string \<Rightarrow> 'd bnd \<Rightarrow> error option \<times> 'fs) \<Rightarrow> 'fs \<Rightarrow> 'd msg_directory \<Rightarrow>
   string option \<Rightarrow> int option \<Rightarrow> bool \<Rightarrow> bool \<Rightarrow> bool \<Rightarrow> (error + unit) \<times> 'd msg_directory \<times> 'fs" where
  "save g write fs md msg_directory description_word_wrap_limit separate_patch use_original_names
     pipe_to_newline =
     (let dir = (case msg_directory of None \<Rightarrow> directory md | Some d \<Rightarrow> Some d)
      in case pack_msgbnds g md description_word_wrap_limit separate_patch use_original_names
                pipe_to_newline of
           Inl err \<Rightarrow> (Inl err, md, fs)
         | Inr (new_item_msgbnd, new_menu_msgbnd) \<Rightarrow>
             (case write_msgbnd write dir new_item_msgbnd fs of
                (Some err, fs1) \<Rightarrow> (Inl err, md, fs1)
              | (None, fs1) \<Rightarrow>
                  (case write_msgbnd write dir new_menu_msgbnd fs1 of
                     (Some err, fs2) \<Rightarrow> (Inl err, md, fs2)
                   | (None, fs2) \<Rightarrow>
                       (Inr (), md\<lparr>item_msgbnd := new_item_msgbnd,
                                   menu_msgbnd := new_menu_msgbnd\<rparr>, fs2))))"

section \<open>\<^verbatim>\<open>dark_souls_params.py\<close>\<close>

text \<open>
  Of a param archive this module reads the entries in order (each with \<^verbatim>\<open>path\<close>,
  \<^verbatim>\<open>basename\<close> and \<^verbatim>\<open>data\<close>) and the truth value of \<^verbatim>\<open>dcx\<close>. Both classes
  are modelled from the point where the archive has been read.
  \<^verbatim>\<open>PARAMDEF_BND(name)\<close>, \<^verbatim>\<open>ParamTable(data, paramdef_bnd)\<close> and
  \<^verbatim>\<open>DrawParamTable(data, paramdef_bnd)\<close> are kept as constructors, so a table records
  the payload and the schema bundle it was decoded with.
\<close>

record 'd param_entry =
  param_path :: string
  param_basename :: string
  param_data :: 'd

record 'd parambnd =
  param_entries :: "'d param_entry list"
  dcx :: bool

datatype paramdef_bnd = PARAMDEF_BND string

datatype 'd param_table = ParamTable 'd paramdef_bnd

datatype 'd draw_param_table = DrawParamTable 'd paramdef_bnd

subsection \<open>\<^verbatim>\<open>DarkSoulsGameParameters.__init__\<close>\<close>

text \<open>\<open>param_attrs\<close> are the attributes set with \<^verbatim>\<open>setattr\<close>; \<open>info\<close> is the table
  \<^verbatim>\<open>GAME_PARAM_INFO\<close> (nickname and field nicknames by base name).\<close>

record 'd game_parameters =
  reload_warning :: bool
  param_tables :: "(string, 'd param_table) dict"
  game_param_bnd :: "'d parambnd"
  paramdef_bnd :: paramdef_bnd
  param_attrs :: "(string, 'd param_table) dict"

definition load_param_entry ::
  "(string, string \<times> 'n) dict \<Rightarrow> 'd param_entry \<Rightarrow> 'd game_parameters \<Rightarrow> 'd game_parameters" where
  "load_param_entry info entry gp =
     (let p = ParamTable (param_data entry) (paramdef_bnd gp);
          gp1 = gp\<lparr>param_tables := AList.update (param_path entry) p (param_tables gp)\<rparr>
      in case map_of info (drop_last (length ''.param'') (param_basename entry)) of
           None \<Rightarrow> gp1
         | Some (param_nickname, field_nicknames) \<Rightarrow>
             gp1\<lparr>param_attrs := AList.update param_nickname p (param_attrs gp1)\<rparr>)"

definition DarkSoulsGameParameters_init ::
  "(string, string \<times> 'n) dict \<Rightarrow> 'd parambnd \<Rightarrow> 'd game_parameters" where
  "DarkSoulsGameParameters_init info bnd =
     fold (load_param_entry info) (param_entries bnd)
       \<lparr>reload_warning = True, param_tables = [], game_param_bnd = bnd,
        paramdef_bnd = PARAMDEF_BND (if dcx bnd then ''dsr'' else ''ptd''),
        param_attrs = []\<rparr>"

subsection \<open>\<^verbatim>\<open>DrawParamBlock.__init__\<close>\<close>

definition DRAWPARAM_ALIASES :: "(string, string) dict" where
  "DRAWPARAM_ALIASES =
     [(''DofBank'', ''Dof''), (''EnvLightTexBank'', ''EnvLightTex''), (''FogBank'', ''Fog''),
      (''LensFlareBank'', ''LensFlare''), (''LensFlareExBank'', ''LensFlareEx''),
      (''LightBank'', ''AmbientLight''), (''LightScatteringBank'', ''ScatteredLight''),
      (''LodBank'', ''Lod''), (''PointLightBank'', ''PointLight''), (''ShadowBank'', ''Shadow''),
      (''ToneCorrectBank'', ''ToneCorrect''), (''ToneMapBank'', ''ToneMap''),
      (''s_LightBank'', ''s_AmbientLight'')]"

text \<open>
  \<open>draw_tables\<close> is \<^verbatim>\<open>_data\<close>: per base name the list \<^verbatim>\<open>[slot 0, slot 1]\<close>.
  An attribute set with \<^verbatim>\<open>setattr\<close> holds the very list of \<^verbatim>\<open>_data\<close>, so
  \<open>draw_attrs\<close> maps the nickname to the base name whose list it shares.
\<close>

record 'd draw_param_block =
  draw_tables :: "(string, 'd draw_param_table option list) dict"
  draw_paramdef_bnd :: paramdef_bnd
  draw_attrs :: "(string, string) dict"

text \<open>\<^verbatim>\<open>parts = entry.basename[:-len('.param')].split('_')\<close>, and the slot and base
  name that the parts give.\<close>

definition name_parts :: "string \<Rightarrow> string list" where
  "name_parts entry_basename = split_on CHR ''_'' (drop_last (length ''.param'') entry_basename)"

definition slot_and_basename :: "string \<Rightarrow> error + nat \<times> string" where
  "slot_and_basename entry_basename =
     (let parts = name_parts entry_basename
      in case (if length parts = 2 then Inr (0, parts ! 1)
               else if length parts = 3
                    then (if parts ! 1 \<noteq> ''1'' then Inl OnlySlots01 else Inr (1, parts ! 2))
                    else Inl (MalformedParamsName entry_basename)) of
           Inl err \<Rightarrow> Inl err
         | Inr (slot, basename) \<Rightarrow>
             Inr (slot, if startswith (parts ! 0) ''s'' then ''s_'' @ basename else basename))"

definition load_draw_param_entry ::
  "'d param_entry \<Rightarrow> 'd draw_param_block \<Rightarrow> error + 'd draw_param_block" where
  "load_draw_param_entry entry blk =
     (case slot_and_basename (param_basename entry) of
        Inl err \<Rightarrow> Inl err
      | Inr (slot, basename) \<Rightarrow>
          (let slots = (case map_of (draw_tables blk) basename of
                          None \<Rightarrow> [None, None]
                        | Some present \<Rightarrow> present);
               table = DrawParamTable (param_data entry) (draw_paramdef_bnd blk);
               blk1 = blk\<lparr>draw_tables :=
                         AList.update basename (slots[slot := Some table]) (draw_tables blk)\<rparr>
           in case map_of DRAWPARAM_ALIASES basename of
                None \<Rightarrow> Inl (InvalidDrawParamBaseName basename)
              | Some param_nickname \<Rightarrow>
                  Inr (blk1\<lparr>draw_attrs := AList.update param_nickname basename (draw_attrs blk1)\<rparr>)))"

definition DrawParamBlock_init :: "'d parambnd \<Rightarrow> error + 'd draw_param_block" where
  "DrawParamBlock_init draw_param_bnd =
     for_each load_draw_param_entry (param_entries draw_param_bnd)
       \<lparr>draw_tables = [],
        draw_paramdef_bnd = PARAMDEF_BND (if dcx draw_param_bnd then ''dsr'' else ''ptd''),
        draw_attrs = []\<rparr>"

section \<open>Example archives\<close>

text \<open>
  A small game: payloads are the decoded entries themselves, so packing and decoding are
  the identity. \<open>WeaponNames\<close> can be merged with its Patch table, \<open>EventText\<close> cannot.
\<close>

definition example_game :: "(int, string) dict game" where
  "example_game =
     \<lparr>MSGBND_INDEX_NAMES =
        [(11, ''WeaponNames''), (30, ''EventText''), (101, ''EventTextPatch''),
         (106, ''WeaponNamesPatch'')],
      FMG_entries = (\<lambda>data. data),
      FMG_pack = (\<lambda>fmg_entries word_wrap_limit pipe_to_newline. fmg_entries)\<rparr>"

definition fmg_file :: "int \<Rightarrow> string \<Rightarrow> (int, string) dict \<Rightarrow> (int, string) dict bnd_entry" where
  "fmg_file i name data =
     \<lparr>entry_id = i, entry_path = ''msg/'' @ name, entry_name = name, entry_data = data\<rparr>"

definition weapon_item :: "(int, string) dict bnd" where
  "weapon_item =
     \<lparr>entries = [fmg_file 11 ''Weapon.fmg'' [(1, ''a'')]],
      dcx_magic = False, path_name = ''item.msgbnd''\<rparr>"

definition weapon_menu :: "(int, string) dict bnd" where
  "weapon_menu =
     \<lparr>entries = [fmg_file 106 ''WeaponPatch.fmg'' [(2, ''b'')]],
      dcx_magic = False, path_name = ''menu.msgbnd''\<rparr>"

definition event_item :: "(int, string) dict bnd" where
  "event_item =
     \<lparr>entries = [fmg_file 30 ''Event.fmg'' [(1, ''a'')]],
      dcx_magic = False, path_name = ''item.msgbnd''\<rparr>"

definition event_menu :: "(int, string) dict bnd" where
  "event_menu =
     \<lparr>entries = [fmg_file 101 ''EventPatch.fmg'' [(2, ''b'')]],
      dcx_magic = False, path_name = ''menu.msgbnd''\<rparr>"

text \<open>Files: a directory holds an item and a menu archive, none of them compressed.\<close>

definition files_of ::
  "'d bnd \<Rightarrow> 'd bnd \<Rightarrow> string \<Rightarrow> 'd bnd option" where
  "files_of item menu =
     [''msg/item.msgbnd'' \<mapsto> item, ''msg/menu.msgbnd'' \<mapsto> menu]"

text \<open>A disk that takes every write, and one that refuses every write.\<close>

definition write_ok ::
  "(string \<Rightarrow> 'd bnd option) \<Rightarrow> string \<Rightarrow> 'd bnd \<Rightarrow> error option \<times> (string \<Rightarrow> 'd bnd option)" where
  "write_ok fs path b = (None, fs(path \<mapsto> b))"

definition write_refused ::
  "(string \<Rightarrow> 'd bnd option) \<Rightarrow> string \<Rightarrow> 'd bnd \<Rightarrow> error option \<times> (string \<Rightarrow> 'd bnd option)" where
  "write_refused fs path b = (Some (WriteFailed path), fs)"

text \<open>The directories that \<open>init\<close> builds from these files.\<close>

definition weapon_directory :: "(int, string) dict msg_directory" where
  "weapon_directory =
     \<lparr>directory = Some ''msg'',
      is_menu = [(''WeaponNames'', False), (''WeaponNamesPatch'', True)],
      original_names = [(''WeaponNames'', ''Weapon.fmg''), (''WeaponNamesPatch'', ''WeaponPatch.fmg'')],
      categories = [(''WeaponNames'', [(1, ''a''), (2, ''b'')])],
      is_patch = {(''WeaponNames'', 2)},
      item_msgbnd = Some weapon_item, menu_msgbnd = Some weapon_menu\<rparr>"

definition event_directory :: "(int, string) dict msg_directory" where
  "event_directory =
     \<lparr>directory = Some ''msg'',
      is_menu = [(''EventText'', False), (''EventTextPatch'', True)],
      original_names = [(''EventText'', ''Event.fmg''), (''EventTextPatch'', ''EventPatch.fmg'')],
      categories = [(''EventText'', [(1, ''a''), (2, ''b'')])],
      is_patch = {(''EventText'', 2)},
      item_msgbnd = Some event_item, menu_msgbnd = Some event_menu\<rparr>"

text \<open>The directory once the item archive has been loaded and the menu archive not yet.\<close>

definition weapon_item_loaded :: "(int, string) dict msg_directory" where
  "weapon_item_loaded =
     \<lparr>directory = Some ''msg'',
      is_menu = [(''WeaponNames'', False)],
      original_names = [(''WeaponNames'', ''Weapon.fmg'')],
      categories = [(''WeaponNames'', [(1, ''a'')])],
      is_patch = {},
      item_msgbnd = Some weapon_item, menu_msgbnd = Some weapon_menu\<rparr>"

text \<open>The payload stored under an entry ID in an archive, if both exist.\<close>

definition resource :: "'d bnd option \<Rightarrow> int \<Rightarrow> 'd option" where
  "resource msgbnd i =
     (case msgbnd of None \<Rightarrow> None | Some b \<Rightarrow> map_option entry_data (entry_by_id b i))"

text \<open>The same item archive inside a DCX wrapper, and a directory that holds it next to
  a menu archive without one (built by hand: \<open>init\<close> refuses such a pair).\<close>

definition dcx_weapon_item :: "(int, string) dict bnd" where
  "dcx_weapon_item = weapon_item\<lparr>dcx_magic := True, path_name := ''item.msgbnd.dcx''\<rparr>"

definition mixed_dcx_directory :: "(int, string) dict msg_directory" where
  "mixed_dcx_directory = weapon_directory\<lparr>item_msgbnd := Some dcx_weapon_item\<rparr>"

text \<open>A menu archive with an entry whose ID the table does not know.\<close>

definition unknown_menu :: "(int, string) dict bnd" where
  "unknown_menu =
     \<lparr>entries = [fmg_file 106 ''WeaponPatch.fmg'' [(2, ''b'')], fmg_file 999 ''Unknown.fmg'' []],
      dcx_magic = False, path_name = ''menu.msgbnd''\<rparr>"

text \<open>A directory with the three tables of the goods, built by hand.\<close>

definition good_directory :: "(int, string) dict msg_directory" where
  "good_directory =
     empty_directory\<lparr>categories :=
       [(''GoodNames'', [(1, ''n''), (2, ''m'')]), (''GoodSummaries'', [(1, ''s'')]),
        (''GoodDescriptions'', [(1, ''d'')])]\<rparr>"

text \<open>A DCX param archive with the light bank in slot 0 and slot 1, the block built from
  it, an entry that asks for a slot 2, and a table of nicknames.\<close>

definition example_parambnd :: "string parambnd" where
  "example_parambnd =
     \<lparr>param_entries =
        [\<lparr>param_path = ''param/m10_LightBank.param'', param_basename = ''m10_LightBank.param'',
          param_data = ''light0''\<rparr>,
         \<lparr>param_path = ''param/m10_1_LightBank.param'', param_basename = ''m10_1_LightBank.param'',
          param_data = ''light1''\<rparr>],
      dcx = True\<rparr>"

definition slot2_entry :: "string param_entry" where
  "slot2_entry =
     \<lparr>param_path = ''param/m10_2_LightBank.param'', param_basename = ''m10_2_LightBank.param'',
      param_data = ''light2''\<rparr>"

definition example_block :: "string draw_param_block" where
  "example_block =
     \<lparr>draw_tables =
        [(''LightBank'', [Some (DrawParamTable ''light0'' (PARAMDEF_BND ''dsr'')),
                         Some (DrawParamTable ''light1'' (PARAMDEF_BND ''dsr''))])],
      draw_paramdef_bnd = PARAMDEF_BND ''dsr'',
      draw_attrs = [(''AmbientLight'', ''LightBank'')]\<rparr>"

definition example_info :: "(string, string \<times> unit) dict" where
  "example_info = [(''m10_LightBank'', (''Lights'', ()))]"








lemmas example_defs =
  example_game_def fmg_file_def weapon_item_def weapon_menu_def event_item_def event_menu_def
  files_of_def write_ok_def write_refused_def weapon_directory_def event_directory_def
  weapon_item_loaded_def resource_def entry_by_id_def
  good_directory_def
  dcx_weapon_item_def mixed_dcx_directory_def unknown_menu_def

lemmas load_defs =
  init_def open_msgbnd_def join_path_def load_fmg_entries_from_bnd_def load_entry_def
  name_of_id_def endswith_def drop_last_def keys_def Let_def setdefault_update_def dict_update_def
  empty_directory_def

lemmas save_defs =
  save_def pack_msgbnds_def save_category_def separate_index_def update_msgbnd_entry_def
  remove_patch_entry_def write_msgbnd_def select_msgbnd_def store_msgbnd_def id_of_name_def
  entry_ids_def modify_entry_def remove_entry_def join_path_def keys_def contains_def Let_def
  CAN_MERGE_PATCH_def CANNOT_MERGE_PATCH_def

section \<open>Dictionaries and loops\<close>







lemma load_entry_Inl:
  "load_entry g menu md entry = Inl err \<longleftrightarrow>
     name_of_id g (entry_id entry) = None \<and> err = UnexpectedIndex (entry_path entry) (entry_id entry)"
  by (auto simp: load_entry_def Let_def split: option.splits)


lemma load_entries_find:
  "(case find (\<lambda>e. name_of_id g (entry_id e) = None) es of
      Some e \<Rightarrow> load_entries g menu md es = Inl (UnexpectedIndex (entry_path e) (entry_id e))
    | None \<Rightarrow> (\<exists>md'. load_entries g menu md es = Inr md'))"
proof (induction es arbitrary: md)
  case Nil
  then show ?case by simp
next
  case (Cons e es)
  show ?case
  proof (cases "name_of_id g (entry_id e)")
    case None
    then show ?thesis by (simp add: load_entry_def)
  next
    case (Some n)
    then obtain md1 where "load_entry g menu md e = Inr md1"
      by (cases "load_entry g menu md e") (auto simp: load_entry_Inl)
    then show ?thesis using Some Cons.IH [of md1] by (simp split: option.splits)
  qed
qed






lemma find_append:
  "find P (xs @ ys) = (case find P xs of None \<Rightarrow> find P ys | Some x \<Rightarrow> Some x)"
  by (induction xs) auto

lemma load_entries_Inl:
  assumes "load_entries g menu md es = Inl err"
  shows "\<exists>path i. err = UnexpectedIndex path i"
  using load_entries_find [where g = g and es = es and menu = menu and md = md] assms
  by (auto split: option.splits)


text \<open>Once both archives are found and agree on DCX, \<open>init\<close> is the two loads.\<close>

lemma init_loads:
  assumes item: "open_msgbnd fs dir ''item.msgbnd'' = Inr item"
      and menu: "open_msgbnd fs dir ''menu.msgbnd'' = Inr menu"
      and same: "dcx_magic item = dcx_magic menu"
  shows "init g fs (Some dir) =
      (case load_entries g False
              (empty_directory\<lparr>directory := Some dir, item_msgbnd := Some item,
                                menu_msgbnd := Some menu\<rparr>) (entries item) of
         Inl err \<Rightarrow> Inl err
       | Inr md' \<Rightarrow> load_entries g True md' (entries menu))"
  using item menu same
  by (simp add: init_def load_fmg_entries_from_bnd_def Let_def split: sum.splits)

text \<open>Assigning one text.\<close>

lemma set_text_Inr:
  "map_of (categories md) c = Some d \<Longrightarrow>
     set_text md c i t = Inr (md\<lparr>categories := AList.update c (AList.update i t d) (categories md)\<rparr>)"
  by (simp add: set_text_def)

lemma categories_set_text:
  "set_text md c i t = Inr md' \<Longrightarrow>
     map_of (categories md') c' =
       (if c' = c then map_option (AList.update i t) (map_of (categories md) c)
        else map_of (categories md) c')"
  by (auto simp: set_text_def update_conv' split: option.splits)

lemma keys_update: "set (keys (AList.update k v d)) = insert k (set (keys d))"
  by (simp add: keys_def dom_update)

lemma set_text_InrD:
  assumes "set_text md c i t = Inr md'"
  obtains d where "map_of (categories md) c = Some d"
    and "md' = md\<lparr>categories := AList.update c (AList.update i t d) (categories md)\<rparr>"
  using assms by (auto simp: set_text_def split: option.splits)

lemma get_text_set_text:
  assumes "set_text md c i t = Inr md'"
  shows "get_text md' c' i' = (if c' = c \<and> i' = i then Inr t else get_text md c' i')"
proof -
  from assms obtain d where d: "map_of (categories md) c = Some d"
    and md': "md' = md\<lparr>categories := AList.update c (AList.update i t d) (categories md)\<rparr>"
    by (rule set_text_InrD)
  show ?thesis
    by (cases "c' = c"; cases "i' = i"; simp add: get_text_def md' update_conv' d)
qed

lemma keys_set_text:
  assumes "set_text md c i t = Inr md'" and c': "map_of (categories md) c' = Some d'"
  shows "\<exists>d''. map_of (categories md') c' = Some d'' \<and> set (keys d') \<subseteq> set (keys d'')"
proof -
  from assms(1) obtain d where d: "map_of (categories md) c = Some d"
    and md': "md' = md\<lparr>categories := AList.update c (AList.update i t d) (categories md)\<rparr>"
    by (rule set_text_InrD)
  show ?thesis
    using c' d by (cases "c' = c") (auto simp: md' update_conv' keys_update)
qed

text \<open>Loops and tables of the param module.\<close>

lemmas param_defs =
  DrawParamBlock_init_def load_draw_param_entry_def slot_and_basename_def name_parts_def
  drop_last_def startswith_def DRAWPARAM_ALIASES_def DarkSoulsGameParameters_init_def
  load_param_entry_def Let_def

lemma for_each_invariant:
  assumes "for_each body xs s = Inr s'" and "I s"
    and "\<And>x s s'. x \<in> set xs \<Longrightarrow> I s \<Longrightarrow> body x s = Inr s' \<Longrightarrow> I s'"
  shows "I s'"
  using assms
proof (induction xs arbitrary: s)
  case Nil
  then show ?case by simp
next
  case (Cons x xs)
  from Cons.prems(1) obtain s1 where 1: "body x s = Inr s1" and 2: "for_each body xs s1 = Inr s'"
    by (auto split: sum.splits)
  have s1: "I s1" using Cons.prems(3) [OF _ Cons.prems(2) 1] by simp
  have step: "I t'" if "y \<in> set xs" "I t" "body y t = Inr t'" for y t t'
    using Cons.prems(3) [of y t t'] that by simp
  show ?case by (rule Cons.IH [OF 2 s1]) (rule step)
qed

lemma for_each_Inr_all:
  "for_each body xs s = Inr s' \<Longrightarrow> x \<in> set xs \<Longrightarrow> \<exists>s1 s2. body x s1 = Inr s2"
  by (induction xs arbitrary: s) (auto split: sum.splits)

lemma for_each_append:
  "for_each body (xs @ ys) s =
     (case for_each body xs s of Inl err \<Rightarrow> Inl err | Inr s' \<Rightarrow> for_each body ys s')"
  by (induction xs arbitrary: s) (auto split: sum.splits)

lemma set_alist_update: "set (AList.update k v al) \<subseteq> insert (k, v) (set al)"
  by (induction al) auto

lemma malformed_name_ValueError:
  assumes "length (name_parts n) = 3 \<and> name_parts n ! 1 \<noteq> ''1'' \<or> length (name_parts n) \<notin> {2, 3}"
  shows "\<exists>err. slot_and_basename n = Inl err \<and> class_of err = ValueError"
  using assms by (auto simp: slot_and_basename_def Let_def)

lemma slot_and_basename_Inr:
  assumes "slot_and_basename n = Inr (slot, basename)"
  shows "slot < 2 \<and> (length (name_parts n) = 2 \<or> length (name_parts n) = 3 \<and> name_parts n ! 1 = ''1'')"
  using assms by (auto simp: slot_and_basename_def Let_def split: if_splits)

lemma load_draw_param_entry_Inr:
  assumes "load_draw_param_entry entry blk = Inr blk'"
  obtains slot basename where "slot_and_basename (param_basename entry) = Inr (slot, basename)"
    and "draw_paramdef_bnd blk' = draw_paramdef_bnd blk"
    and "draw_tables blk' =
           AList.update basename
             ((case map_of (draw_tables blk) basename of None \<Rightarrow> [None, None] | Some present \<Rightarrow> present)
                [slot := Some (DrawParamTable (param_data entry) (draw_paramdef_bnd blk))])
             (draw_tables blk)"
  using assms
  by (auto simp: load_draw_param_entry_def Let_def split: sum.splits option.splits)


lemma load_draw_param_entry_malformed:
  assumes "length (name_parts (param_basename entry)) = 3 \<and> name_parts (param_basename entry) ! 1 \<noteq> ''1''
           \<or> length (name_parts (param_basename entry)) \<notin> {2, 3}"
  shows "\<exists>err. load_draw_param_entry entry blk = Inl err \<and> class_of err = ValueError"
  using malformed_name_ValueError [OF assms]
  by (auto simp: load_draw_param_entry_def)

lemma load_draw_param_entry_slots:
  assumes "load_draw_param_entry entry blk = Inr blk'"
      and "\<forall>slots \<in> snd ` set (draw_tables blk). length slots = 2"
  shows "\<forall>slots \<in> snd ` set (draw_tables blk'). length slots = 2"
proof -
  from assms(1) obtain slot basename where
    t: "draw_tables blk' =
           AList.update basename
             ((case map_of (draw_tables blk) basename of None \<Rightarrow> [None, None] | Some present \<Rightarrow> present)
                [slot := Some (DrawParamTable (param_data entry) (draw_paramdef_bnd blk))])
             (draw_tables blk)"
    by (rule load_draw_param_entry_Inr)
  have old: "length (case map_of (draw_tables blk) basename of None \<Rightarrow> [None, None] | Some present \<Rightarrow> present) = 2"
    using assms(2) by (auto split: option.splits dest!: map_of_SomeD intro: rev_image_eqI)
  show ?thesis
  proof
    fix slots assume "slots \<in> snd ` set (draw_tables blk')"
    then obtain k where "(k, slots) \<in> set (draw_tables blk')" by auto
    with t set_alist_update [of basename _ "draw_tables blk"]
    have "slots = (case map_of (draw_tables blk) basename of None \<Rightarrow> [None, None] | Some present \<Rightarrow> present)
                [slot := Some (DrawParamTable (param_data entry) (draw_paramdef_bnd blk))]
          \<or> (k, slots) \<in> set (draw_tables blk)"
      by auto
    then show "length slots = 2"
    proof
      assume "slots = (case map_of (draw_tables blk) basename of None \<Rightarrow> [None, None] | Some present \<Rightarrow> present)
                [slot := Some (DrawParamTable (param_data entry) (draw_paramdef_bnd blk))]"
      with old show ?thesis by simp
    next
      assume "(k, slots) \<in> set (draw_tables blk)"
      then have "slots \<in> snd ` set (draw_tables blk)" by (auto intro: rev_image_eqI)
      with assms(2) show ?thesis by blast
    qed
  qed
qed

lemma fold_snoc: "fold f (xs @ [x]) s = f x (fold f xs s)"
  by simp

lemma load_param_entry_paramdef: "paramdef_bnd (load_param_entry info entry gp) = paramdef_bnd gp"
  by (simp add: load_param_entry_def Let_def split: option.splits prod.splits)

lemma load_param_entry_tables:
  "param_tables (load_param_entry info entry gp) =
     AList.update (param_path entry) (ParamTable (param_data entry) (paramdef_bnd gp)) (param_tables gp)"
  by (simp add: load_param_entry_def Let_def split: option.splits prod.splits)

lemma load_param_entry_attrs:
  "set (param_attrs (load_param_entry info entry gp)) \<subseteq>
     set (param_attrs gp) \<union> {(n, ParamTable (param_data entry) (paramdef_bnd gp)) | n. True}"
  using set_alist_update [of _ "ParamTable (param_data entry) (paramdef_bnd gp)" "param_attrs gp"]
  by (auto simp: load_param_entry_def Let_def split: option.splits prod.splits)

lemma fold_load_param_entry_paramdef:
  "paramdef_bnd (fold (load_param_entry info) es gp) = paramdef_bnd gp"
  by (induction es arbitrary: gp) (simp_all add: load_param_entry_paramdef)

lemma fold_load_param_entry_decoded:
  assumes "\<forall>t \<in> snd ` set (param_tables gp) \<union> snd ` set (param_attrs gp).
             \<exists>src \<in> S. t = ParamTable (param_data src) pd"
      and "set es \<subseteq> S" and "paramdef_bnd gp = pd"
  shows "\<forall>t \<in> snd ` set (param_tables (fold (load_param_entry info) es gp))
              \<union> snd ` set (param_attrs (fold (load_param_entry info) es gp)).
             \<exists>src \<in> S. t = ParamTable (param_data src) pd"
  using assms
proof (induction es arbitrary: gp)
  case Nil
  then show ?case by simp
next
  case (Cons e es)
  let ?gp = "load_param_entry info e gp"
  have e: "e \<in> S" using Cons.prems(2) by simp
  have pd: "paramdef_bnd ?gp = pd" using Cons.prems(3) by (simp add: load_param_entry_paramdef)
  have "\<forall>t \<in> snd ` set (param_tables ?gp) \<union> snd ` set (param_attrs ?gp).
             \<exists>src \<in> S. t = ParamTable (param_data src) pd"
  proof
    fix t assume "t \<in> snd ` set (param_tables ?gp) \<union> snd ` set (param_attrs ?gp)"
    then consider k where "(k, t) \<in> set (param_tables ?gp)" | k where "(k, t) \<in> set (param_attrs ?gp)"
      by auto
    then have "t = ParamTable (param_data e) pd
               \<or> t \<in> snd ` set (param_tables gp) \<union> snd ` set (param_attrs gp)"
    proof cases
      case 1
      with set_alist_update [of "param_path e" "ParamTable (param_data e) (paramdef_bnd gp)" "param_tables gp"]
      show ?thesis
        using Cons.prems(3) by (auto simp: load_param_entry_tables intro: rev_image_eqI)
    next
      case 2
      with load_param_entry_attrs [of info e gp]
      show ?thesis
        using Cons.prems(3) by (auto intro: rev_image_eqI)
    qed
    with e Cons.prems(1) show "\<exists>src \<in> S. t = ParamTable (param_data src) pd" by blast
  qed
  from Cons.IH [OF this _ pd] Cons.prems(2) show ?case by simp
qed

lemma fold_load_param_entry_every_entry:
  "\<forall>e \<in> set es. \<exists>src \<in> set es. param_path src = param_path e
      \<and> map_of (param_tables (fold (load_param_entry info) es gp)) (param_path e)
          = Some (ParamTable (param_data src) (paramdef_bnd gp))"
proof (induction es rule: rev_induct)
  case Nil
  then show ?case by simp
next
  case (snoc x xs)
  let ?r = "fold (load_param_entry info) xs gp"
  have tables: "map_of (param_tables (fold (load_param_entry info) (xs @ [x]) gp)) =
      (map_of (param_tables ?r))(param_path x \<mapsto> ParamTable (param_data x) (paramdef_bnd gp))"
    by (simp add: load_param_entry_tables update_conv' fold_load_param_entry_paramdef)
  show ?case
  proof
    fix e assume e: "e \<in> set (xs @ [x])"
    show "\<exists>src \<in> set (xs @ [x]). param_path src = param_path e
      \<and> map_of (param_tables (fold (load_param_entry info) (xs @ [x]) gp)) (param_path e)
          = Some (ParamTable (param_data src) (paramdef_bnd gp))"
    proof (cases "param_path e = param_path x")
      case True
      then show ?thesis unfolding tables by (intro bexI [of _ x]) simp_all
    next
      case False
      with e have "e \<in> set xs" by auto
      with snoc.IH obtain src where "src \<in> set xs" "param_path src = param_path e"
        "map_of (param_tables ?r) (param_path e) = Some (ParamTable (param_data src) (paramdef_bnd gp))"
        by blast
      with False show ?thesis unfolding tables by (intro bexI [of _ src]) simp_all
    qed
  qed
qed

lemma load_draw_param_entry_decoded:
  assumes "load_draw_param_entry entry blk = Inr blk'"
      and "draw_paramdef_bnd blk = pd \<and>
           (\<forall>slots \<in> snd ` set (draw_tables blk). \<forall>t. Some t \<in> set slots \<longrightarrow>
              (\<exists>src \<in> S. t = DrawParamTable (param_data src) pd))"
      and "entry \<in> S"
  shows "draw_paramdef_bnd blk' = pd \<and>
           (\<forall>slots \<in> snd ` set (draw_tables blk'). \<forall>t. Some t \<in> set slots \<longrightarrow>
              (\<exists>src \<in> S. t = DrawParamTable (param_data src) pd))"
proof -
  let ?old = "case map_of (draw_tables blk) basename of None \<Rightarrow> [None, None] | Some present \<Rightarrow> present"
  from assms(1) obtain slot basename where
    pd: "draw_paramdef_bnd blk' = draw_paramdef_bnd blk" and
    t: "draw_tables blk' =
           AList.update basename
             ((case map_of (draw_tables blk) basename of None \<Rightarrow> [None, None] | Some present \<Rightarrow> present)
                [slot := Some (DrawParamTable (param_data entry) (draw_paramdef_bnd blk))])
             (draw_tables blk)"
    by (rule load_draw_param_entry_Inr)
  let ?old = "case map_of (draw_tables blk) basename of None \<Rightarrow> [None, None] | Some present \<Rightarrow> present"
  let ?new = "?old[slot := Some (DrawParamTable (param_data entry) (draw_paramdef_bnd blk))]"
  have old: "\<exists>src \<in> S. u = DrawParamTable (param_data src) pd" if "Some u \<in> set ?old" for u
  proof (cases "map_of (draw_tables blk) basename")
    case None
    with that show ?thesis by simp
  next
    case (Some present)
    then have "present \<in> snd ` set (draw_tables blk)"
      by (auto dest!: map_of_SomeD intro: rev_image_eqI)
    with that Some assms(2) show ?thesis by auto
  qed
  have new: "\<exists>src \<in> S. u = DrawParamTable (param_data src) pd" if "Some u \<in> set ?new" for u
  proof -
    from that set_update_subset_insert [of ?old slot "Some (DrawParamTable (param_data entry) (draw_paramdef_bnd blk))"]
    have "u = DrawParamTable (param_data entry) (draw_paramdef_bnd blk) \<or> Some u \<in> set ?old"
      by auto
    with old assms(2,3) show ?thesis by auto
  qed
  have "\<exists>src \<in> S. u = DrawParamTable (param_data src) pd"
    if "slots \<in> snd ` set (draw_tables blk')" "Some u \<in> set slots" for slots u
  proof -
    from that(1) obtain k where "(k, slots) \<in> set (draw_tables blk')" by auto
    with t set_alist_update [of basename ?new "draw_tables blk"]
    have "slots = ?new \<or> (k, slots) \<in> set (draw_tables blk)" by auto
    then show ?thesis
    proof
      assume "slots = ?new"
      with that(2) new show ?thesis by simp
    next
      assume "(k, slots) \<in> set (draw_tables blk)"
      then have "slots \<in> snd ` set (draw_tables blk)" by (auto intro: rev_image_eqI)
      with assms(2) that(2) show ?thesis by blast
    qed
  qed
  with pd assms(2) show ?thesis by auto
qed












section \<open>Opening: merging Patch tables\<close>

text \<open>
  C1. A directory whose mergeable category \<open>WeaponNames\<close> has the base table
  \<open>{1: "a"}\<close> and the Patch table \<open>{2: "b"}\<close> shows the merged table
  \<open>{1: "a", 2: "b"}\<close> once opened. Saved with \<^verbatim>\<open>separate_patch=True\<close>, the Patch
  resource holds \<open>{2: "b"}\<close> only, but the base resource is written from the whole merged
  table and holds \<open>{1: "a", 2: "b"}\<close>: \<^verbatim>\<open>save\<close> builds \<^verbatim>\<open>fmg_entries_main\<close> without the
  Patch indices and then passes \<^verbatim>\<open>fmg_entries\<close> to \<^verbatim>\<open>update_msgbnd_entry\<close>.
\<close>

theorem separate_patch_base_resource_keeps_patch_entries:
  "init example_game (files_of weapon_item weapon_menu) (Some ''msg'') = Inr weapon_directory
   \<and> getitem weapon_directory ''WeaponNames'' = Inr [(1, ''a''), (2, ''b'')]
   \<and> (case save example_game write_ok (files_of weapon_item weapon_menu) weapon_directory
              None None True True True of
         (result, md', fs') \<Rightarrow>
           result = Inr ()
         \<and> resource (fs' ''msg/item.msgbnd'') 11 = Some [(1, ''a''), (2, ''b'')]
         \<and> resource (fs' ''msg/menu.msgbnd'') 106 = Some [(2, ''b'')])"
  by (simp add: example_defs load_defs save_defs getitem_def)




section \<open>Saving: categories that are never merged\<close>

text \<open>
  C3. \<open>EventText\<close> is in the never-merge set. With the base table \<open>{1: "a"}\<close> and the
  Patch table \<open>{2: "b"}\<close>, saving with \<^verbatim>\<open>separate_patch=False\<close> writes two resources,
  and the Patch resource holds \<open>{2: "b"}\<close>; the base resource however holds
  \<open>{1: "a", 2: "b"}\<close>, the Patch entry included, for the same reason as in C1.
\<close>

theorem never_merge_base_resource_keeps_patch_entries:
  "init example_game (files_of event_item event_menu) (Some ''msg'') = Inr event_directory
   \<and> ''EventText'' \<in> set CANNOT_MERGE_PATCH
   \<and> (case save example_game write_ok (files_of event_item event_menu) event_directory
              None None False True True of
         (result, md', fs') \<Rightarrow>
           result = Inr ()
         \<and> resource (fs' ''msg/item.msgbnd'') 30 = Some [(1, ''a''), (2, ''b'')]
         \<and> resource (fs' ''msg/menu.msgbnd'') 101 = Some [(2, ''b'')])"
  by (simp add: example_defs load_defs save_defs)

section \<open>Opening: the DCX check and unknown entry IDs\<close>

text \<open>
  C4, as the code has it. The DCX signals of the two archives are compared when the
  directory is opened, not when it is written: with both archives found, \<open>init\<close> fails with
  the \<^verbatim>\<open>ValueError\<close> of the item side exactly when only the item archive is DCX, and with
  that of the menu side exactly when only the menu archive is DCX; two archives that agree
  never give either error.
\<close>

theorem open_fails_iff_dcx_signals_differ:
  assumes item: "open_msgbnd fs dir ''item.msgbnd'' = Inr item"
      and menu: "open_msgbnd fs dir ''menu.msgbnd'' = Inr menu"
  shows "(init g fs (Some dir) = Inl DcxItemNotMenu \<longleftrightarrow> dcx_magic item \<and> \<not> dcx_magic menu)
       \<and> (init g fs (Some dir) = Inl DcxMenuNotItem \<longleftrightarrow> \<not> dcx_magic item \<and> dcx_magic menu)"
proof (cases "dcx_magic item = dcx_magic menu")
  case True
  have "init g fs (Some dir) \<noteq> Inl DcxItemNotMenu \<and> init g fs (Some dir) \<noteq> Inl DcxMenuNotItem"
    unfolding init_loads [OF item menu True, of g]
    by (auto split: sum.splits dest: load_entries_Inl)
  with True show ?thesis by auto
next
  case False
  then show ?thesis using item menu by (auto simp: init_def)
qed

theorem open_fails_iff_dcx_signals_differ_witness:
  "init example_game (files_of dcx_weapon_item weapon_menu) (Some ''msg'') = Inl DcxItemNotMenu
   \<and> class_of DcxItemNotMenu = ValueError
   \<and> init example_game (files_of weapon_item weapon_menu) (Some ''msg'') \<noteq> Inl DcxItemNotMenu
   \<and> init example_game (files_of weapon_item weapon_menu) (Some ''msg'') \<noteq> Inl DcxMenuNotItem"
proof -
  have i: "open_msgbnd (files_of dcx_weapon_item weapon_menu) ''msg'' ''item.msgbnd''
             = Inr dcx_weapon_item"
    and m: "open_msgbnd (files_of dcx_weapon_item weapon_menu) ''msg'' ''menu.msgbnd''
             = Inr weapon_menu"
    by (simp_all add: example_defs open_msgbnd_def join_path_def)
  have i': "open_msgbnd (files_of weapon_item weapon_menu) ''msg'' ''item.msgbnd'' = Inr weapon_item"
    and m': "open_msgbnd (files_of weapon_item weapon_menu) ''msg'' ''menu.msgbnd'' = Inr weapon_menu"
    by (simp_all add: example_defs open_msgbnd_def join_path_def)
  show ?thesis
    using open_fails_iff_dcx_signals_differ [OF i m, of example_game]
      open_fails_iff_dcx_signals_differ [OF i' m', of example_game]
    by (simp add: example_defs)
qed

text \<open>
  C4, as the claim has it, fails: a directory whose item archive is DCX and whose menu
  archive is not is saved without any error, since \<^verbatim>\<open>save\<close> compares nothing.
\<close>

theorem save_accepts_differing_dcx_signals:
  "map_option dcx_magic (item_msgbnd mixed_dcx_directory) = Some True
   \<and> map_option dcx_magic (menu_msgbnd mixed_dcx_directory) = Some False
   \<and> fst (save example_game write_ok (files_of dcx_weapon_item weapon_menu) mixed_dcx_directory
            None None False True True) = Inr ()"
  by (simp add: example_defs save_defs)

text \<open>
  C5. With both archives found and agreeing on DCX, opening fails as soon as an entry has
  an ID that the table does not map: the result is the \<^verbatim>\<open>ValueError\<close> for the first such
  entry (item archive first) and carries no directory. When every ID is mapped, opening
  returns a directory.
\<close>

theorem unmapped_entry_id_aborts_open:
  assumes item: "open_msgbnd fs dir ''item.msgbnd'' = Inr item"
      and menu: "open_msgbnd fs dir ''menu.msgbnd'' = Inr menu"
      and same: "dcx_magic item = dcx_magic menu"
  shows "case find (\<lambda>e. name_of_id g (entry_id e) = None) (entries item @ entries menu) of
           Some e \<Rightarrow> init g fs (Some dir) = Inl (UnexpectedIndex (entry_path e) (entry_id e))
         | None \<Rightarrow> (\<exists>md. init g fs (Some dir) = Inr md)"
proof -
  let ?md = "empty_directory\<lparr>directory := Some dir, item_msgbnd := Some item,
                              menu_msgbnd := Some menu\<rparr>"
  note init = init_loads [OF item menu same, of g]
  show ?thesis
  proof (cases "find (\<lambda>e. name_of_id g (entry_id e) = None) (entries item)")
    case (Some e)
    with load_entries_find [where g = g and es = "entries item" and menu = False and md = ?md]
    have first: "load_entries g False ?md (entries item)
                   = Inl (UnexpectedIndex (entry_path e) (entry_id e))"
      by simp
    have "init g fs (Some dir) = Inl (UnexpectedIndex (entry_path e) (entry_id e))"
      by (simp add: init first)
    then show ?thesis by (simp add: find_append Some)
  next
    case None
    with load_entries_find [where g = g and es = "entries item" and menu = False and md = ?md]
    obtain md1 where md1: "load_entries g False ?md (entries item) = Inr md1" by auto
    have "init g fs (Some dir) = load_entries g True md1 (entries menu)"
      by (simp add: init md1)
    with load_entries_find [where g = g and es = "entries menu" and menu = True and md = md1]
    show ?thesis by (simp add: find_append None split: option.splits)
  qed
qed

theorem unmapped_entry_id_aborts_open_witness:
  "init example_game (files_of weapon_item unknown_menu) (Some ''msg'')
     = Inl (UnexpectedIndex ''msg/Unknown.fmg'' 999)
   \<and> class_of (UnexpectedIndex ''msg/Unknown.fmg'' 999) = ValueError
   \<and> (\<exists>md. init example_game (files_of weapon_item weapon_menu) (Some ''msg'') = Inr md)"
proof -
  have i: "open_msgbnd (files_of weapon_item unknown_menu) ''msg'' ''item.msgbnd'' = Inr weapon_item"
    and m: "open_msgbnd (files_of weapon_item unknown_menu) ''msg'' ''menu.msgbnd'' = Inr unknown_menu"
    and s: "dcx_magic weapon_item = dcx_magic unknown_menu"
    by (simp_all add: example_defs open_msgbnd_def join_path_def)
  have i': "open_msgbnd (files_of weapon_item weapon_menu) ''msg'' ''item.msgbnd'' = Inr weapon_item"
    and m': "open_msgbnd (files_of weapon_item weapon_menu) ''msg'' ''menu.msgbnd'' = Inr weapon_menu"
    and s': "dcx_magic weapon_item = dcx_magic weapon_menu"
    by (simp_all add: example_defs open_msgbnd_def join_path_def)
  show ?thesis
    using unmapped_entry_id_aborts_open [OF i m s, of example_game]
      unmapped_entry_id_aborts_open [OF i' m' s', of example_game]
    by (simp add: example_defs name_of_id_def)
qed

section \<open>Editing and reading texts\<close>

text \<open>
  C6, as the code has it. \<^verbatim>\<open>delete_item_text\<close> takes an item type and an index. When the
  index is present in the Names table of the type and the Summaries and Descriptions tables
  of the type are loaded, it succeeds, removes no key of any table, leaves the empty string
  at that index in all three tables (so reading the item back gives three empty strings),
  and leaves the text of every other category and index as it was.
\<close>

theorem delete_item_text_blanks_all_three_texts:
  assumes type: "resolve_item_type item_type = Inr item_fmg"
      and names: "map_of (categories md) (item_fmg @ ''Names'') = Some names"
      and present: "index \<in> set (keys names)"
      and summaries: "map_of (categories md) (item_fmg @ ''Summaries'') = Some summaries"
      and descriptions: "map_of (categories md) (item_fmg @ ''Descriptions'') = Some descriptions"
  shows "\<exists>md'. delete_item_text md index item_type = (Inr (), md')
       \<and> (\<forall>c d. map_of (categories md) c = Some d \<longrightarrow>
             (\<exists>d'. map_of (categories md') c = Some d' \<and> set (keys d) \<subseteq> set (keys d')))
       \<and> get_text md' (item_fmg @ ''Names'') index = Inr ''''
       \<and> get_text md' (item_fmg @ ''Summaries'') index = Inr ''''
       \<and> get_text md' (item_fmg @ ''Descriptions'') index = Inr ''''
       \<and> get_all_item_text md' index item_type = Inr (Some ('''', '''', ''''))
       \<and> (\<forall>c i. \<not> (i = index \<and> c \<in> {item_fmg @ ''Names'', item_fmg @ ''Summaries'',
                                          item_fmg @ ''Descriptions''}) \<longrightarrow>
             get_text md' c i = get_text md c i)"
proof -
  let ?N = "item_fmg @ ''Names''" and ?S = "item_fmg @ ''Summaries''"
    and ?D = "item_fmg @ ''Descriptions''"
  have ne: "?N \<noteq> ?S" "?N \<noteq> ?D" "?S \<noteq> ?D" by simp_all
  from present have idx: "map_of names index \<noteq> None"
    by (simp add: keys_def map_of_eq_None_iff)
  obtain md1 where 1: "set_text md ?N index [] = Inr md1"
    using names by (simp add: set_text_def)
  have s1: "map_of (categories md1) ?S = Some summaries"
    using categories_set_text [OF 1, of ?S] summaries ne by simp
  obtain md2 where 2: "set_text md1 ?S index [] = Inr md2"
    using s1 by (simp add: set_text_def)
  have d2: "map_of (categories md2) ?D = Some descriptions"
    using categories_set_text [OF 2, of ?D] categories_set_text [OF 1, of ?D] descriptions ne
    by simp
  obtain md3 where 3: "set_text md2 ?D index [] = Inr md3"
    using d2 by (simp add: set_text_def)
  have del: "delete_item_text md index item_type = (Inr (), md3)"
    using type names idx 1 2 3 by (simp add: delete_item_text_def)
  have g1: "get_text md1 c i = (if c = ?N \<and> i = index then Inr [] else get_text md c i)" for c i
    by (rule get_text_set_text [OF 1])
  have g2: "get_text md2 c i = (if c = ?S \<and> i = index then Inr [] else get_text md1 c i)" for c i
    by (rule get_text_set_text [OF 2])
  have g3: "get_text md3 c i = (if c = ?D \<and> i = index then Inr [] else get_text md2 c i)" for c i
    by (rule get_text_set_text [OF 3])
  have get: "get_text md3 c i =
      (if i = index \<and> c \<in> {?N, ?S, ?D} then Inr [] else get_text md c i)" for c i
    unfolding g3 g2 g1
    by (cases "i = index"; cases "c = ?N"; cases "c = ?S"; cases "c = ?D"; simp)
  have keep: "\<exists>d'. map_of (categories md3) c = Some d' \<and> set (keys d) \<subseteq> set (keys d')"
    if "map_of (categories md) c = Some d" for c d
  proof -
    from keys_set_text [OF 1 that] obtain d1
      where d1: "map_of (categories md1) c = Some d1" "set (keys d) \<subseteq> set (keys d1)" by blast
    from keys_set_text [OF 2 d1(1)] obtain d2
      where d2: "map_of (categories md2) c = Some d2" "set (keys d1) \<subseteq> set (keys d2)" by blast
    from keys_set_text [OF 3 d2(1)] obtain d3
      where d3: "map_of (categories md3) c = Some d3" "set (keys d2) \<subseteq> set (keys d3)" by blast
    from d1(2) d2(2) d3 show ?thesis by blast
  qed
  have n3: "\<exists>names'. map_of (categories md3) ?N = Some names' \<and> map_of names' index = Some ''''"
    using get [of ?N index] by (auto simp: get_text_def split: option.splits)
  have all: "get_all_item_text md3 index item_type = Inr (Some ('''', '''', ''''))"
    using n3 type get [of ?S index] get [of ?D index]
    by (auto simp: get_all_item_text_def)
  from del keep get all show ?thesis by auto
qed

theorem delete_item_text_blanks_all_three_texts_witness:
  "resolve_item_type ''good'' = Inr ''Good''
   \<and> fst (delete_item_text good_directory 1 ''good'') = Inr ()
   \<and> get_text (snd (delete_item_text good_directory 1 ''good'')) ''GoodNames'' 1 = Inr ''''
   \<and> get_text (snd (delete_item_text good_directory 1 ''good'')) ''GoodNames'' 2 = Inr ''m''"
proof -
  have t: "resolve_item_type ''good'' = Inr ''Good''"
    by (simp add: resolve_item_type_def lower_def lower_char_def)
  have n: "map_of (categories good_directory) (''Good'' @ ''Names'') = Some [(1, ''n''), (2, ''m'')]"
    and p: "1 \<in> set (keys [(1::int, ''n''), (2, ''m'')])"
    and s: "map_of (categories good_directory) (''Good'' @ ''Summaries'') = Some [(1, ''s'')]"
    and d: "map_of (categories good_directory) (''Good'' @ ''Descriptions'') = Some [(1, ''d'')]"
    by (simp_all add: good_directory_def empty_directory_def keys_def)
  have before: "get_text good_directory ''GoodNames'' 2 = Inr ''m''"
    by (simp add: get_text_def good_directory_def empty_directory_def)
  from delete_item_text_blanks_all_three_texts [OF t n p s d] obtain md'
    where "delete_item_text good_directory 1 ''good'' = (Inr (), md')"
      and "get_text md' (''Good'' @ ''Names'') 1 = Inr ''''"
      and "\<forall>c i. \<not> (i = 1 \<and> c \<in> {''Good'' @ ''Names'', ''Good'' @ ''Summaries'',
                                          ''Good'' @ ''Descriptions''}) \<longrightarrow>
             get_text md' c i = get_text good_directory c i"
    by blast
  with t before show ?thesis by simp
qed

text \<open>
  C6, as the claim has it, fails: deleting the good 1 also blanks the entry 1 of
  \<open>GoodSummaries\<close>, which is another (category, index) pair than that of the name.
\<close>

theorem delete_item_text_changes_other_category:
  "fst (delete_item_text good_directory 1 ''good'') = Inr ()
   \<and> (''GoodSummaries'', 1::int) \<noteq> (''GoodNames'', 1)
   \<and> get_text good_directory ''GoodSummaries'' 1 = Inr ''s''
   \<and> get_text (snd (delete_item_text good_directory 1 ''good'')) ''GoodSummaries'' 1 = Inr ''''"
  by (simp add: delete_item_text_def resolve_item_type_def lower_def lower_char_def set_text_def
        get_text_def good_directory_def empty_directory_def)

text \<open>
  C9. Subscripting the directory with a name that is not a loaded category raises an
  \<^verbatim>\<open>AttributeError\<close>; with the name of a loaded category it returns the table of that
  category.
\<close>

theorem getitem_raises_attribute_error:
  "(text_category \<notin> set (keys (categories md)) \<longrightarrow>
      (\<exists>err. getitem md text_category = Inl err \<and> class_of err = AttributeError))
   \<and> (text_category \<in> set (keys (categories md)) \<longrightarrow>
      (\<exists>d. getitem md text_category = Inr d \<and> map_of (categories md) text_category = Some d))"
proof (cases "map_of (categories md) text_category")
  case None
  then have "text_category \<notin> set (keys (categories md))"
    by (simp add: keys_def map_of_eq_None_iff)
  with None show ?thesis by (simp add: getitem_def)
next
  case (Some d)
  then have "text_category \<in> set (keys (categories md))"
    using map_of_eq_None_iff [of "categories md" text_category] by (simp add: keys_def)
  with Some show ?thesis by (simp add: getitem_def)
qed

theorem getitem_raises_attribute_error_witness:
  "''WeaponNamesPatch'' \<notin> set (keys (categories weapon_directory))
   \<and> getitem weapon_directory ''WeaponNamesPatch'' = Inl (NonExistentCategory ''WeaponNamesPatch'')
   \<and> ''WeaponNames'' \<in> set (keys (categories weapon_directory))
   \<and> getitem weapon_directory ''WeaponNames'' = Inr [(1, ''a''), (2, ''b'')]"
proof -
  have a: "''WeaponNamesPatch'' \<notin> set (keys (categories weapon_directory))"
    and b: "''WeaponNames'' \<in> set (keys (categories weapon_directory))"
    by (simp_all add: weapon_directory_def keys_def)
  from getitem_raises_attribute_error [of "''WeaponNamesPatch''" weapon_directory] getitem_raises_attribute_error [of "''WeaponNames''" weapon_directory] a b
  show ?thesis by (auto simp: getitem_def weapon_directory_def)
qed

section \<open>Saving: the archives held by the directory\<close>



section \<open>Params: the schema bundle and the slots\<close>

text \<open>
  C7. The schema bundle of a param archive is chosen from its DCX flag alone: \<open>dsr\<close> for a
  DCX archive, \<open>ptd\<close> otherwise. \<^verbatim>\<open>DarkSoulsGameParameters\<close> keeps that bundle, holds
  for every entry of the archive a table under the entry's path, and every table it holds
  (by path or by nickname) was decoded from an entry of the archive with that one bundle.
  A \<^verbatim>\<open>DrawParamBlock\<close> that is built keeps the bundle chosen the same way, and every
  table in its slots was decoded from an entry of the archive with it.
\<close>

theorem schema_bundle_chosen_from_dcx:
  "paramdef_bnd (DarkSoulsGameParameters_init info game_bnd)
     = PARAMDEF_BND (if dcx game_bnd then ''dsr'' else ''ptd'')
   \<and> (\<forall>entry \<in> set (param_entries game_bnd). \<exists>source \<in> set (param_entries game_bnd).
         param_path source = param_path entry
       \<and> map_of (param_tables (DarkSoulsGameParameters_init info game_bnd)) (param_path entry)
           = Some (ParamTable (param_data source)
                     (PARAMDEF_BND (if dcx game_bnd then ''dsr'' else ''ptd''))))
   \<and> (\<forall>table \<in> snd ` set (param_tables (DarkSoulsGameParameters_init info game_bnd))
                  \<union> snd ` set (param_attrs (DarkSoulsGameParameters_init info game_bnd)).
         \<exists>source \<in> set (param_entries game_bnd).
           table = ParamTable (param_data source)
                     (PARAMDEF_BND (if dcx game_bnd then ''dsr'' else ''ptd'')))
   \<and> (DrawParamBlock_init draw_bnd = Inr blk \<longrightarrow>
         draw_paramdef_bnd blk = PARAMDEF_BND (if dcx draw_bnd then ''dsr'' else ''ptd'')
       \<and> (\<forall>slots \<in> snd ` set (draw_tables blk). \<forall>table. Some table \<in> set slots \<longrightarrow>
             (\<exists>source \<in> set (param_entries draw_bnd).
                table = DrawParamTable (param_data source)
                          (PARAMDEF_BND (if dcx draw_bnd then ''dsr'' else ''ptd'')))))"
proof (intro conjI impI)
  let ?pd = "PARAMDEF_BND (if dcx game_bnd then ''dsr'' else ''ptd'')"
  show "paramdef_bnd (DarkSoulsGameParameters_init info game_bnd) = ?pd"
    by (simp add: DarkSoulsGameParameters_init_def fold_load_param_entry_paramdef)
  show "\<forall>entry \<in> set (param_entries game_bnd). \<exists>source \<in> set (param_entries game_bnd).
         param_path source = param_path entry
       \<and> map_of (param_tables (DarkSoulsGameParameters_init info game_bnd)) (param_path entry)
           = Some (ParamTable (param_data source) ?pd)"
    using fold_load_param_entry_every_entry [of "param_entries game_bnd" info
        "\<lparr>reload_warning = True, param_tables = [], game_param_bnd = game_bnd,
        paramdef_bnd = ?pd, param_attrs = []\<rparr>"]
    by (simp add: DarkSoulsGameParameters_init_def)
  show "\<forall>table \<in> snd ` set (param_tables (DarkSoulsGameParameters_init info game_bnd))
                  \<union> snd ` set (param_attrs (DarkSoulsGameParameters_init info game_bnd)).
         \<exists>source \<in> set (param_entries game_bnd). table = ParamTable (param_data source) ?pd"
    unfolding DarkSoulsGameParameters_init_def
    by (rule fold_load_param_entry_decoded) simp_all
next
  let ?pd = "PARAMDEF_BND (if dcx draw_bnd then ''dsr'' else ''ptd'')"
  assume "DrawParamBlock_init draw_bnd = Inr blk"
  then have run: "for_each load_draw_param_entry (param_entries draw_bnd)
       \<lparr>draw_tables = [], draw_paramdef_bnd = ?pd, draw_attrs = []\<rparr> = Inr blk"
    by (simp add: DrawParamBlock_init_def)
  have inv: "draw_paramdef_bnd blk = ?pd \<and>
           (\<forall>slots \<in> snd ` set (draw_tables blk). \<forall>t. Some t \<in> set slots \<longrightarrow>
              (\<exists>src \<in> set (param_entries draw_bnd). t = DrawParamTable (param_data src) ?pd))"
    by (rule for_each_invariant [OF run, where I = "\<lambda>b. draw_paramdef_bnd b = ?pd \<and>
           (\<forall>slots \<in> snd ` set (draw_tables b). \<forall>t. Some t \<in> set slots \<longrightarrow>
              (\<exists>src \<in> set (param_entries draw_bnd). t = DrawParamTable (param_data src) ?pd))"])
       (simp, rule load_draw_param_entry_decoded)
  from inv show "draw_paramdef_bnd blk = ?pd" by simp
  from inv show "\<forall>slots \<in> snd ` set (draw_tables blk). \<forall>table. Some table \<in> set slots \<longrightarrow>
             (\<exists>source \<in> set (param_entries draw_bnd). table = DrawParamTable (param_data source) ?pd)"
    by simp
qed


theorem schema_bundle_chosen_from_dcx_witness:
  "paramdef_bnd (DarkSoulsGameParameters_init example_info example_parambnd) = PARAMDEF_BND ''dsr''
   \<and> map_of (param_tables (DarkSoulsGameParameters_init example_info example_parambnd))
         ''param/m10_1_LightBank.param'' = Some (ParamTable ''light1'' (PARAMDEF_BND ''dsr''))
   \<and> paramdef_bnd (DarkSoulsGameParameters_init example_info (example_parambnd\<lparr>dcx := False\<rparr>))
       = PARAMDEF_BND ''ptd''
   \<and> DrawParamBlock_init example_parambnd = Inr example_block
   \<and> draw_paramdef_bnd example_block = PARAMDEF_BND ''dsr''
   \<and> map_of (draw_tables example_block) ''LightBank''
       = Some [Some (DrawParamTable ''light0'' (PARAMDEF_BND ''dsr'')),
               Some (DrawParamTable ''light1'' (PARAMDEF_BND ''dsr''))]"
proof -
  have ok: "DrawParamBlock_init example_parambnd = Inr example_block"
    by (simp add: param_defs example_parambnd_def example_block_def)
  have dcx: "dcx example_parambnd" "\<not> dcx (example_parambnd\<lparr>dcx := False\<rparr>)"
    by (simp_all add: example_parambnd_def)
  have tab: "map_of (param_tables (DarkSoulsGameParameters_init example_info example_parambnd))
         ''param/m10_1_LightBank.param'' = Some (ParamTable ''light1'' (PARAMDEF_BND ''dsr''))"
    by (simp add: param_defs example_parambnd_def example_info_def)
  from schema_bundle_chosen_from_dcx [of example_info example_parambnd example_parambnd example_block]
    schema_bundle_chosen_from_dcx [of example_info "example_parambnd\<lparr>dcx := False\<rparr>" example_parambnd example_block]
    ok dcx tab
  show ?thesis by (simp add: example_block_def)
qed

text \<open>
  C10. An entry whose file name without \<^verbatim>\<open>.param\<close> splits at underscores into three
  parts with a middle part other than \<open>1\<close>, or into a number of parts other than two or
  three, makes the loop body raise a \<^verbatim>\<open>ValueError\<close> whatever the block holds; so
  building the block raises it when the entries before that one were loaded. A block that
  is built has lists of exactly two slots, and each of its entries had two parts, or three
  with the middle part \<open>1\<close>.
\<close>

theorem draw_param_slots_are_0_or_1:
  "((length (name_parts (param_basename entry)) = 3 \<and> name_parts (param_basename entry) ! 1 \<noteq> ''1''
      \<or> length (name_parts (param_basename entry)) \<notin> {2, 3})
     \<longrightarrow> (\<exists>err. load_draw_param_entry entry blk = Inl err \<and> class_of err = ValueError)
       \<and> (param_entries bnd = before @ entry # after
            \<and> DrawParamBlock_init (bnd\<lparr>param_entries := before\<rparr>) = Inr reached
            \<longrightarrow> (\<exists>err. DrawParamBlock_init bnd = Inl err \<and> class_of err = ValueError)))
   \<and> (DrawParamBlock_init built_from = Inr built
     \<longrightarrow> (\<forall>slots \<in> snd ` set (draw_tables built). length slots = 2)
       \<and> (\<forall>e \<in> set (param_entries built_from).
             length (name_parts (param_basename e)) = 2
             \<or> length (name_parts (param_basename e)) = 3 \<and> name_parts (param_basename e) ! 1 = ''1''))"
proof (intro conjI impI)
  assume bad: "length (name_parts (param_basename entry)) = 3 \<and> name_parts (param_basename entry) ! 1 \<noteq> ''1''
      \<or> length (name_parts (param_basename entry)) \<notin> {2, 3}"
  show "\<exists>err. load_draw_param_entry entry blk = Inl err \<and> class_of err = ValueError"
    by (rule load_draw_param_entry_malformed [OF bad])
  assume "param_entries bnd = before @ entry # after
            \<and> DrawParamBlock_init (bnd\<lparr>param_entries := before\<rparr>) = Inr reached"
  then have es: "param_entries bnd = before @ entry # after"
    and pre: "DrawParamBlock_init (bnd\<lparr>param_entries := before\<rparr>) = Inr reached"
    by simp_all
  from load_draw_param_entry_malformed [OF bad, of reached]
  obtain err where "load_draw_param_entry entry reached = Inl err" "class_of err = ValueError"
    by blast
  with es pre have "DrawParamBlock_init bnd = Inl err"
    by (simp add: DrawParamBlock_init_def for_each_append)
  with \<open>class_of err = ValueError\<close>
  show "\<exists>err. DrawParamBlock_init bnd = Inl err \<and> class_of err = ValueError" by blast
next
  assume ok: "DrawParamBlock_init built_from = Inr built"
  let ?start = "\<lparr>draw_tables = [],
        draw_paramdef_bnd = PARAMDEF_BND (if dcx built_from then ''dsr'' else ''ptd''),
        draw_attrs = []\<rparr> :: 'b draw_param_block"
  from ok have run: "for_each load_draw_param_entry (param_entries built_from) ?start = Inr built"
    by (simp add: DrawParamBlock_init_def)
  show "\<forall>slots \<in> snd ` set (draw_tables built). length slots = 2"
    by (rule for_each_invariant [OF run, where I = "\<lambda>b. \<forall>slots \<in> snd ` set (draw_tables b). length slots = 2"])
       (simp, rule load_draw_param_entry_slots)
  show "\<forall>e \<in> set (param_entries built_from).
             length (name_parts (param_basename e)) = 2
             \<or> length (name_parts (param_basename e)) = 3 \<and> name_parts (param_basename e) ! 1 = ''1''"
  proof
    fix e assume "e \<in> set (param_entries built_from)"
    from for_each_Inr_all [OF run this] obtain b1 b2 where "load_draw_param_entry e b1 = Inr b2"
      by blast
    then obtain slot basename where "slot_and_basename (param_basename e) = Inr (slot, basename)"
      by (rule load_draw_param_entry_Inr)
    from slot_and_basename_Inr [OF this]
    show "length (name_parts (param_basename e)) = 2
             \<or> length (name_parts (param_basename e)) = 3 \<and> name_parts (param_basename e) ! 1 = ''1''"
      by simp
  qed
qed


theorem draw_param_slots_are_0_or_1_witness:
  "load_draw_param_entry slot2_entry example_block = Inl OnlySlots01
   \<and> class_of OnlySlots01 = ValueError
   \<and> DrawParamBlock_init (example_parambnd\<lparr>param_entries := param_entries example_parambnd @ [slot2_entry]\<rparr>)
       = Inl OnlySlots01
   \<and> DrawParamBlock_init example_parambnd = Inr example_block
   \<and> map length (map snd (draw_tables example_block)) = [2]"
proof -
  have bad: "length (name_parts (param_basename slot2_entry)) = 3
             \<and> name_parts (param_basename slot2_entry) ! 1 \<noteq> ''1''
           \<or> length (name_parts (param_basename slot2_entry)) \<notin> {2, 3}"
    by (simp add: slot2_entry_def name_parts_def drop_last_def)
  have es: "param_entries (example_parambnd\<lparr>param_entries := param_entries example_parambnd @ [slot2_entry]\<rparr>)
              = param_entries example_parambnd @ slot2_entry # []"
    by simp
  have pre: "DrawParamBlock_init
               ((example_parambnd\<lparr>param_entries := param_entries example_parambnd @ [slot2_entry]\<rparr>)
                  \<lparr>param_entries := param_entries example_parambnd\<rparr>) = Inr example_block"
    by (simp add: param_defs example_parambnd_def example_block_def)
  have ok: "DrawParamBlock_init example_parambnd = Inr example_block"
    by (simp add: param_defs example_parambnd_def example_block_def)
  have step: "load_draw_param_entry slot2_entry example_block = Inl OnlySlots01"
    by (simp add: param_defs slot2_entry_def)
  have all: "DrawParamBlock_init (example_parambnd\<lparr>param_entries := param_entries example_parambnd @ [slot2_entry]\<rparr>)
       = Inl OnlySlots01"
    by (simp add: param_defs example_parambnd_def slot2_entry_def)
  from draw_param_slots_are_0_or_1 [where entry = slot2_entry and blk = example_block
      and bnd = "example_parambnd\<lparr>param_entries := param_entries example_parambnd @ [slot2_entry]\<rparr>"
      and before = "param_entries example_parambnd" and after = "[]" and reached = example_block
      and built_from = example_parambnd and built = example_block]
    bad es pre ok
  have "\<forall>slots \<in> snd ` set (draw_tables example_block). length slots = 2" by blast
  then have "map length (map snd (draw_tables example_block)) = [2]"
    by (simp add: example_block_def)
  with step all ok show ?thesis by simp
qed

end
